theory Spec2Isabelle
  imports Main "HOL-Library.Sublist"
begin

section \<open>Text: separators, splitting, integer formatting\<close>

text \<open>
  Request and response texts are \<^typ>\<open>string\<close>. The received bytes are decoded with
  \<^verbatim>\<open>decode("utf-8", errors="replace")\<close>, which never fails, maps the empty byte string to the
  empty text and a non-empty one to a non-empty text, and leaves the ASCII bytes CR, LF and
  space as they are; the model therefore takes the decoded text as the received datum.
\<close>

definition CR :: char where
  "CR = CHR 0x0D"

definition LF :: char where
  "LF = CHR 0x0A"

definition CRLF :: string where
  "CRLF = [CR, LF]"

text \<open>
  Python's \<^verbatim>\<open>s.split(sep)\<close> for a separator given explicitly: a left-to-right scan for
  non-overlapping occurrences of \<open>sep\<close>; the pieces between them are returned, empty pieces
  included. \<open>cur\<close> is the piece being collected. (Python raises \<^verbatim>\<open>ValueError\<close> on an empty
  separator; both call sites pass a literal, non-empty one.)
\<close>

function split_from :: "string \<Rightarrow> string \<Rightarrow> string \<Rightarrow> string list" where
  "split_from sep cur [] = [cur]"
| "split_from sep cur (c # cs) =
     (if sep \<noteq> [] \<and> prefix sep (c # cs)
      then cur # split_from sep [] (drop (length sep) (c # cs))
      else split_from sep (cur @ [c]) cs)"
  by pat_completeness auto
termination
  by (relation "measure (\<lambda>(sep, cur, s). length s)") (auto simp: neq_Nil_conv)

definition str_split :: "string \<Rightarrow> string \<Rightarrow> string list" where
  "str_split s sep = split_from sep [] s"

text \<open>Python's \<^verbatim>\<open>str(n)\<close> of an integer, as used by the f-string \<^verbatim>\<open>{status_code}\<close>.\<close>

definition digit_char :: "nat \<Rightarrow> char" where
  "digit_char d = ''0123456789'' ! d"

function str_nat :: "nat \<Rightarrow> string" where
  "str_nat n = (if n < 10 then [digit_char n] else str_nat (n div 10) @ [digit_char (n mod 10)])"
  by pat_completeness auto
termination
  by (relation "measure (\<lambda>n. n)") auto

declare str_nat.simps [simp del]

definition str_int :: "int \<Rightarrow> string" where
  "str_int i = (if i < 0 then ''-'' @ str_nat (nat (- i)) else str_nat (nat i))"

section \<open>Response builder (server.py, \<^verbatim>\<open>GhuServer._build_response\<close>)\<close>

definition HTTP_STATUS :: "int \<rightharpoonup> string" where
  "HTTP_STATUS = [200 \<mapsto> ''OK'', 400 \<mapsto> ''Bad Request'', 404 \<mapsto> ''Not Found'',
                  500 \<mapsto> ''Internal Server Error'']"

text \<open>
  The optional parameter \<^verbatim>\<open>content_type\<close> is an option: \<open>None\<close> is the call that omits it
  and so takes the default of the signature.
\<close>

definition build_response :: "int \<Rightarrow> string \<Rightarrow> string option \<Rightarrow> string" where
  "build_response status_code body content_type_arg =
     (let content_type = (case content_type_arg of
                            None \<Rightarrow> ''text/html; charset=utf-8''
                          | Some ct \<Rightarrow> ct);
          status_text = (case HTTP_STATUS status_code of
                           None \<Rightarrow> ''Unknown''
                         | Some t \<Rightarrow> t);
          response_status = ''HTTP/1.1 '' @ str_int status_code @ '' '' @ status_text @ CRLF;
          response_headers = response_status
                             @ ''Content-Type: '' @ content_type @ CRLF
                             @ ''Connection: close'' @ CRLF
                             @ CRLF
      in response_headers @ body)"

section \<open>Exceptions, the environment of one connection, and the observable trace\<close>

text \<open>
  The exception classes the handlers and the event loop distinguish. \<open>OtherException\<close> is
  any other subclass of \<^verbatim>\<open>Exception\<close>. \<open>SystemExit\<close>, \<open>KeyboardInterrupt\<close> and \<open>NonException\<close>
  (any other \<^verbatim>\<open>BaseException\<close>, such as \<^verbatim>\<open>CancelledError\<close>) are not instances of
  \<^verbatim>\<open>Exception\<close>.
\<close>

datatype exn =
    ConnectionResetError
  | TimeoutError
  | UnboundLocalError
  | IndexError
  | OtherException string
  | SystemExit
  | KeyboardInterrupt
  | NonException string

fun is_Exception :: "exn \<Rightarrow> bool" where
  "is_Exception SystemExit = False"
| "is_Exception KeyboardInterrupt = False"
| "is_Exception (NonException _) = False"
| "is_Exception _ = True"

text \<open>
  A task that lets \<^verbatim>\<open>SystemExit\<close> or \<^verbatim>\<open>KeyboardInterrupt\<close> escape has it raised again by
  the event loop, out of \<^verbatim>\<open>asyncio.run\<close>; any other exception that escapes a task is kept in
  the task and the loop goes on.
\<close>

fun stops_loop :: "exn \<Rightarrow> bool" where
  "stops_loop SystemExit = True"
| "stops_loop KeyboardInterrupt = True"
| "stops_loop _ = False"

text \<open>What \<^verbatim>\<open>wait_for(sock_recv(...), timeout)\<close> and \<^verbatim>\<open>sock_sendall\<close> do on this connection.\<close>

datatype recv_outcome = Received string | RecvRaises exn

datatype send_outcome = SendOk | SendRaises exn

text \<open>A route handler takes no argument and returns a body, returns \<^verbatim>\<open>None\<close>, or raises.\<close>

datatype handler_outcome = Returns "string option" | Raises exn

type_synonym handler = "unit \<Rightarrow> handler_outcome"

type_synonym routes = "string \<rightharpoonup> handler"

definition route :: "routes \<Rightarrow> string \<Rightarrow> handler \<Rightarrow> routes" where
  "route rts path func = rts(path \<mapsto> func)"

datatype level = INFO | WARNING | ERROR

datatype message =
    EmptyRequest
  | RequestText string
  | RouteError string exn
  | ResetByPeer
  | TimedOutNoData
  | Unexpected exn

datatype event =
    Log level message
  | Lookup string
  | Invoke string
  | SendAll string
  | Close

record outcome =
  trace :: "event list"
  escaped :: "exn option"

fun sends :: "event list \<Rightarrow> string list" where
  "sends [] = []"
| "sends (SendAll r # es) = r # sends es"
| "sends (_ # es) = sends es"

fun is_route_access :: "event \<Rightarrow> bool" where
  "is_route_access (Lookup _) = True"
| "is_route_access (Invoke _) = True"
| "is_route_access _ = False"

section \<open>Connection handler with a route table (server.py, \<^verbatim>\<open>GhuServer.handle_client\<close>)\<close>

text \<open>
  Lines 95 to 113: from the request text to the response to send. The result is the events
  of the step and either the response or the exception that leaves the inner \<^verbatim>\<open>try\<close>
  (its \<^verbatim>\<open>except Exception\<close> lets through what is not an \<^verbatim>\<open>Exception\<close>).
\<close>

definition dispatch :: "routes \<Rightarrow> string \<Rightarrow> event list \<times> (exn + string)" where
  "dispatch rts request_text =
     (case str_split request_text CRLF of
        [] \<Rightarrow> ([], Inl IndexError)
      | request_line # _ \<Rightarrow>
          (let parts = str_split request_line '' '' in
           if length parts < 2
           then ([], Inr (build_response 400 ''<h1>400 Bad Request</h1>'' None))
           else
             (let path = parts ! 1 in
              case rts path of
                None \<Rightarrow> ([Lookup path], Inr (build_response 404 ''<h1>404 Not Found</h1>'' None))
              | Some route_handler \<Rightarrow>
                  (case route_handler () of
                     Returns None \<Rightarrow>
                       ([Lookup path, Invoke path],
                        Inr (build_response 404 ''<h1>404 Not Found</h1>'' None))
                   | Returns (Some body) \<Rightarrow>
                       ([Lookup path, Invoke path], Inr (build_response 200 body None))
                   | Raises e \<Rightarrow>
                       (if is_Exception e
                        then ([Lookup path, Invoke path, Log ERROR (RouteError path e)],
                              Inr (build_response 500 ''<h1>500 Internal Server Error</h1>'' None))
                        else ([Lookup path, Invoke path], Inl e))))))"

text \<open>\<^verbatim>\<open>await loop.sock_sendall(client_socket, response.encode("utf-8"))\<close>.\<close>

definition sock_sendall :: "send_outcome \<Rightarrow> string \<Rightarrow> event list \<times> exn option" where
  "sock_sendall send response =
     ([SendAll response], (case send of SendOk \<Rightarrow> None | SendRaises e \<Rightarrow> Some e))"

text \<open>
  The body of the outer \<^verbatim>\<open>try\<close> (lines 82 to 115): its events, and the exception that
  leaves it, if any. \<^verbatim>\<open>with suppress(asyncio.TimeoutError)\<close> encloses the assignment to
  \<^verbatim>\<open>request_data\<close> only: after a suppressed timeout the variable is unbound, and reading it
  at \<^verbatim>\<open>if not request_data\<close> raises \<^verbatim>\<open>UnboundLocalError\<close>.
\<close>

definition try_body :: "routes \<Rightarrow> recv_outcome \<Rightarrow> send_outcome \<Rightarrow> event list \<times> exn option" where
  "try_body rts recv send =
     (case recv of
        RecvRaises e \<Rightarrow>
          (if e = TimeoutError then ([], Some UnboundLocalError) else ([], Some e))
      | Received request_data \<Rightarrow>
          (if request_data = []
           then ([Log WARNING EmptyRequest], None)
           else
             (let request_text = request_data in
              case dispatch rts request_text of
                (evs, Inl e) \<Rightarrow> (Log INFO (RequestText request_text) # evs, Some e)
              | (evs, Inr response) \<Rightarrow>
                  (let (sent, raised) = sock_sendall send response
                   in (Log INFO (RequestText request_text) # evs @ sent, raised)))))"

text \<open>
  The \<^verbatim>\<open>except\<close> clauses of the outer \<^verbatim>\<open>try\<close>, in the source's order; both files have the
  same three. The result is the events and the exception that no clause caught.
\<close>

fun except_clauses :: "exn \<Rightarrow> event list \<times> exn option" where
  "except_clauses ConnectionResetError = ([Log WARNING ResetByPeer], None)"
| "except_clauses TimeoutError = ([Log WARNING TimedOutNoData], None)"
| "except_clauses e =
     (if is_Exception e then ([Log ERROR (Unexpected e)], None) else ([], Some e))"

text \<open>\<^verbatim>\<open>try: ... except ...: ... finally: client_socket.close()\<close>.\<close>

definition try_except_finally :: "event list \<times> exn option \<Rightarrow> outcome" where
  "try_except_finally body =
     (case body of
        (evs, None) \<Rightarrow> \<lparr>trace = evs @ [Close], escaped = None\<rparr>
      | (evs, Some e) \<Rightarrow>
          (let (evs', esc) = except_clauses e
           in \<lparr>trace = evs @ evs' @ [Close], escaped = esc\<rparr>))"

definition handle_client :: "routes \<Rightarrow> recv_outcome \<Rightarrow> send_outcome \<Rightarrow> outcome" where
  "handle_client rts recv send = try_except_finally (try_body rts recv send)"

text \<open>
  The accept loop (\<^verbatim>\<open>run_server\<close>) under \<^verbatim>\<open>asyncio.run\<close>, on the connections that arrive, in
  order of arrival: each is handed to its own task by \<^verbatim>\<open>asyncio.create_task\<close>, and the loop
  never reads the task's result. The handlers share only the read-only route table, so
  the outcome of a connection is that of its own handler; the model lets each handler
  finish before the next connection is taken up. When a handler lets \<^verbatim>\<open>SystemExit\<close> or
  \<^verbatim>\<open>KeyboardInterrupt\<close> escape, the event loop raises it and the accept loop ends there:
  the connections after it are not handled. The result is the outcomes of the connections
  handled and the exception that ended the loop, if any.
\<close>

fun run_server ::
  "routes \<Rightarrow> (recv_outcome \<times> send_outcome) list \<Rightarrow> outcome list \<times> exn option" where
  "run_server rts [] = ([], None)"
| "run_server rts ((recv, send) # conns) =
     (let out = handle_client rts recv send in
      if (case escaped out of None \<Rightarrow> False | Some e \<Rightarrow> stops_loop e)
      then ([out], escaped out)
      else (let (outs, stopped) = run_server rts conns in (out # outs, stopped)))"

section \<open>Connection handler with the fixed route (main.py, \<^verbatim>\<open>handle_client\<close>)\<close>

definition response_body :: string where
  "response_body =
     [LF] @ ''        <html>'' @
     [LF] @ ''        <head><title>Hello World!</title></head>'' @
     [LF] @ ''        <body>'' @
     [LF] @ ''            <h1>Ghu is ALIVE!</h1>'' @
     [LF] @ ''            <p>This is an example HTML response from an asyncio server.</p>'' @
     [LF] @ ''        </body>'' @
     [LF] @ ''        </html>'' @
     [LF] @ ''        ''"

definition main_response :: string where
  "main_response =
     ''HTTP/1.1 200 OK'' @ CRLF @
     ''Content-Type: text/html'' @ CRLF @
     ''Connection: close'' @ CRLF @
     CRLF @
     response_body"

text \<open>
  In main.py the \<^verbatim>\<open>with suppress(asyncio.TimeoutError)\<close> block also encloses the emptiness test
  and the logging: a suppressed timeout leaves the block, and the response is built and
  sent all the same.
\<close>

definition main_try_body :: "recv_outcome \<Rightarrow> send_outcome \<Rightarrow> event list \<times> exn option" where
  "main_try_body recv send =
     (case recv of
        RecvRaises e \<Rightarrow>
          (if e = TimeoutError then sock_sendall send main_response else ([], Some e))
      | Received request_data \<Rightarrow>
          (if request_data = []
           then ([Log WARNING EmptyRequest], None)
           else
             (let (sent, raised) = sock_sendall send main_response
              in (Log INFO (RequestText request_data) # sent, raised))))"

definition main_handle_client :: "recv_outcome \<Rightarrow> send_outcome \<Rightarrow> outcome" where
  "main_handle_client recv send = try_except_finally (main_try_body recv send)"

section \<open>Reading a response\<close>

text \<open>The text after the first blank line (\<open>CRLF CRLF\<close>), if there is one.\<close>

fun after_blank_line :: "string \<Rightarrow> string option" where
  "after_blank_line [] = None"
| "after_blank_line (c # cs) =
     (if prefix (CRLF @ CRLF) (c # cs) then Some (drop 4 (c # cs)) else after_blank_line cs)"

section \<open>The routes of the reference deployment and of the fixed-route comparison\<close>

text \<open>\<^verbatim>\<open>self.routes = {}\<close> of the constructor.\<close>

definition no_routes :: routes where
  "no_routes = Map.empty"

definition hello :: handler where
  "hello u = Returns (Some ''<h1>Hello World!</h1><p>HEHEHE It's works!!!</p>'')"

text \<open>
  The two routes registered under \<^verbatim>\<open>__main__\<close>. The handler of \<open>/\<close> reads a template file;
  what that read does is a parameter.
\<close>

definition server_routes :: "handler_outcome \<Rightarrow> routes" where
  "server_routes index_outcome =
     route (route no_routes ''/'' (\<lambda>u. index_outcome)) ''/hello'' hello"

text \<open>
  Following the specification's words, for the comparison of the two files: a route table
  whose lookup always yields a handler returning the fixed body of main.py.
\<close>

definition fixed_handler :: handler where
  "fixed_handler u = Returns (Some response_body)"

definition fixed_routes :: routes where
  "fixed_routes path = Some fixed_handler"

section \<open>Notation for the request line and its tokens\<close>

abbreviation first_line :: "string \<Rightarrow> string" where
  "first_line req \<equiv> hd (str_split req CRLF)"

abbreviation tokens :: "string \<Rightarrow> string list" where
  "tokens req \<equiv> str_split (first_line req) '' ''"

section \<open>Splitting: basic facts\<close>

lemma split_from_not_Nil: "split_from sep cur s \<noteq> []"
  by (induction sep cur s rule: split_from.induct) auto

lemma str_split_not_Nil: "str_split s sep \<noteq> []"
  by (simp add: str_split_def split_from_not_Nil)

lemma length_split_from_char: "length (split_from [c] cur s) = Suc (count_list s c)"
  by (induction s arbitrary: cur) auto

lemma length_str_split_char: "length (str_split s [c]) < 2 \<longleftrightarrow> c \<notin> set s"
  by (simp add: str_split_def length_split_from_char count_list_0_iff)

lemma split_from_char_absent: "c \<notin> set s \<Longrightarrow> split_from [c] cur s = [cur @ s]"
  by (induction s arbitrary: cur) auto

lemma split_from_char_first:
  "c \<notin> set m \<Longrightarrow> split_from [c] cur (m @ c # r) = (cur @ m) # split_from [c] [] r"
  by (induction m arbitrary: cur) auto

lemma hd_split_from_acc: "hd (split_from sep cur s) = cur @ hd (split_from sep [] s)"
proof (induction s arbitrary: cur)
  case Nil
  show ?case by simp
next
  case (Cons c cs)
  show ?case
  proof (cases "sep \<noteq> [] \<and> prefix sep (c # cs)")
    case True
    then show ?thesis by simp
  next
    case False
    have "hd (split_from sep cur (c # cs)) = hd (split_from sep (cur @ [c]) cs)"
      using False by auto
    also have "\<dots> = (cur @ [c]) @ hd (split_from sep [] cs)"
      by (rule Cons.IH)
    also have "\<dots> = cur @ hd (split_from sep [c] cs)"
      using Cons.IH [of "[c]"] by simp
    also have "\<dots> = cur @ hd (split_from sep [] (c # cs))"
      using False by auto
    finally show ?thesis .
  qed
qed

lemma hd_split_CRLF_method:
  "\<not> sublist CRLF m \<Longrightarrow>
   hd (split_from CRLF cur (m @ CHR '' '' # r)) = cur @ m @ CHR '' '' # hd (split_from CRLF [] r)"
proof (induction m arbitrary: cur)
  case Nil
  have "\<not> prefix CRLF (CHR '' '' # r)" by (simp add: CRLF_def CR_def)
  then have "hd (split_from CRLF cur (CHR '' '' # r)) = hd (split_from CRLF (cur @ '' '') r)"
    by simp
  then show ?case using hd_split_from_acc [of CRLF "cur @ '' ''" r] by simp
next
  case (Cons x m)
  have nosub: "\<not> sublist CRLF m"
    using Cons.prems by (auto simp: sublist_Cons_right)
  have nopre: "\<not> prefix CRLF (x # m)"
    using Cons.prems by (auto simp: sublist_Cons_right)
  have "\<not> prefix CRLF ((x # m) @ CHR '' '' # r)"
  proof (cases m)
    case Nil
    then show ?thesis by (simp add: CRLF_def CR_def LF_def)
  next
    case (Cons y ys)
    then show ?thesis using nopre by (simp add: CRLF_def)
  qed
  then have "hd (split_from CRLF cur ((x # m) @ CHR '' '' # r))
             = hd (split_from CRLF (cur @ [x]) (m @ CHR '' '' # r))"
    by simp
  then show ?case using Cons.IH [OF nosub, of "cur @ [x]"] by simp
qed

lemma str_nat_digits:
  "str_nat 200 = ''200''" "str_nat 400 = ''400''" "str_nat 404 = ''404''" "str_nat 500 = ''500''"
  by (simp_all add: str_nat.simps digit_char_def)

lemma str_int_codes:
  "str_int 200 = ''200''" "str_int 400 = ''400''" "str_int 404 = ''404''" "str_int 500 = ''500''"
  by (simp_all add: str_int_def str_nat_digits)

lemma HTTP_STATUS_cases:
  "HTTP_STATUS c = (if c = 500 then Some ''Internal Server Error''
                    else if c = 404 then Some ''Not Found''
                    else if c = 400 then Some ''Bad Request''
                    else if c = 200 then Some ''OK'' else None)"
  by (simp add: HTTP_STATUS_def)

section \<open>Dispatch and the handler: basic facts\<close>

lemma sends_append: "sends (xs @ ys) = sends xs @ sends ys"
  by (induction xs rule: sends.induct) auto

lemma sends_except_clauses: "sends (fst (except_clauses e)) = []"
  by (cases e) auto

lemma dispatch_tokens:
  "dispatch rts req =
     (if length (tokens req) < 2
      then ([], Inr (build_response 400 ''<h1>400 Bad Request</h1>'' None))
      else
        (case rts (tokens req ! 1) of
           None \<Rightarrow> ([Lookup (tokens req ! 1)],
                     Inr (build_response 404 ''<h1>404 Not Found</h1>'' None))
         | Some route_handler \<Rightarrow>
             (case route_handler () of
                Returns None \<Rightarrow>
                  ([Lookup (tokens req ! 1), Invoke (tokens req ! 1)],
                   Inr (build_response 404 ''<h1>404 Not Found</h1>'' None))
              | Returns (Some body) \<Rightarrow>
                  ([Lookup (tokens req ! 1), Invoke (tokens req ! 1)],
                   Inr (build_response 200 body None))
              | Raises e \<Rightarrow>
                  (if is_Exception e
                   then ([Lookup (tokens req ! 1), Invoke (tokens req ! 1),
                          Log ERROR (RouteError (tokens req ! 1) e)],
                         Inr (build_response 500 ''<h1>500 Internal Server Error</h1>'' None))
                   else ([Lookup (tokens req ! 1), Invoke (tokens req ! 1)], Inl e)))))"
proof (cases "str_split req CRLF")
  case Nil
  then show ?thesis using str_split_not_Nil [of req CRLF] by simp
next
  case (Cons l ls)
  then show ?thesis
    by (simp add: dispatch_def Let_def split: option.splits handler_outcome.splits)
qed

lemma sends_dispatch: "sends (fst (dispatch rts req)) = []"
  by (simp add: dispatch_tokens split: option.splits handler_outcome.splits)

lemma dispatch_Inl: "snd (dispatch rts req) = Inl e \<Longrightarrow> \<not> is_Exception e"
  by (simp add: dispatch_tokens split: option.splits handler_outcome.splits if_splits)

lemma trace_handle_client_response:
  assumes "req \<noteq> []" and "dispatch rts req = (evs, Inr r)"
  shows "trace (handle_client rts (Received req) send)
         = Log INFO (RequestText req) # evs @ [SendAll r]
           @ (case send of SendOk \<Rightarrow> [] | SendRaises x \<Rightarrow> fst (except_clauses x)) @ [Close]"
    and "escaped (handle_client rts (Received req) send)
         = (case send of SendOk \<Rightarrow> None | SendRaises x \<Rightarrow> snd (except_clauses x))"
  using assms
  by (auto simp: handle_client_def try_body_def try_except_finally_def sock_sendall_def
      split: send_outcome.splits prod.splits)

lemma sends_handle_client_response:
  assumes "req \<noteq> []" and "dispatch rts req = (evs, Inr r)"
  shows "sends (trace (handle_client rts (Received req) send)) = [r]"
proof -
  have "sends evs = []"
    using sends_dispatch [of rts req] assms(2) by simp
  then show ?thesis
    using assms
    by (simp add: trace_handle_client_response sends_append sends_except_clauses
        split: send_outcome.splits)
qed

lemma sends_handle_client_raise:
  assumes "req \<noteq> []" and "dispatch rts req = (evs, Inl e)"
  shows "sends (trace (handle_client rts (Received req) send)) = []"
proof -
  have "sends evs = []"
    using sends_dispatch [of rts req] assms(2) by simp
  then show ?thesis
    using assms sends_except_clauses [of e]
    by (auto simp: handle_client_def try_body_def try_except_finally_def sends_append
        split: prod.splits)
qed

lemma snd_except_clauses: "is_Exception x \<Longrightarrow> snd (except_clauses x) = None"
  by (cases x) auto

lemma run_server_append:
  "snd (run_server rts xs) = None \<Longrightarrow>
   run_server rts (xs @ ys)
   = (fst (run_server rts xs) @ fst (run_server rts ys), snd (run_server rts ys))"
  by (induction xs) (auto simp: Let_def split: prod.splits option.splits if_splits)

lemma run_server_continues:
  assumes "case escaped (handle_client rts recv send) of None \<Rightarrow> True | Some e \<Rightarrow> \<not> stops_loop e"
  shows "run_server rts ((recv, send) # conns)
         = (handle_client rts recv send # fst (run_server rts conns),
            snd (run_server rts conns))"
  using assms by (auto simp: Let_def split: prod.splits option.splits)

lemma run_server_stops:
  assumes "escaped (handle_client rts recv send) = Some e" and "stops_loop e"
  shows "run_server rts ((recv, send) # conns) = ([handle_client rts recv send], Some e)"
  using assms by (simp add: Let_def)

lemma escaped_handle_client_raise:
  assumes "req \<noteq> []" and "dispatch rts req = (evs, Inl e)"
  shows "escaped (handle_client rts (Received req) send) = snd (except_clauses e)"
  using assms
  by (auto simp: handle_client_def try_body_def try_except_finally_def split: prod.splits)

lemmas char_defs = CRLF_def CR_def LF_def

lemma build_response_literal:
  "build_response 200 b None =
     ''HTTP/1.1 200 OK'' @ CRLF @ ''Content-Type: text/html; charset=utf-8'' @ CRLF
     @ ''Connection: close'' @ CRLF @ CRLF @ b"
  "build_response 400 b None =
     ''HTTP/1.1 400 Bad Request'' @ CRLF @ ''Content-Type: text/html; charset=utf-8'' @ CRLF
     @ ''Connection: close'' @ CRLF @ CRLF @ b"
  "build_response 404 b None =
     ''HTTP/1.1 404 Not Found'' @ CRLF @ ''Content-Type: text/html; charset=utf-8'' @ CRLF
     @ ''Connection: close'' @ CRLF @ CRLF @ b"
  "build_response 500 b None =
     ''HTTP/1.1 500 Internal Server Error'' @ CRLF
     @ ''Content-Type: text/html; charset=utf-8'' @ CRLF
     @ ''Connection: close'' @ CRLF @ CRLF @ b"
  by (simp_all add: build_response_def HTTP_STATUS_def str_int_codes)

lemma after_blank_line_default:
  "after_blank_line (build_response 200 b None) = Some b"
  "after_blank_line (build_response 400 b None) = Some b"
  "after_blank_line (build_response 404 b None) = Some b"
  "after_blank_line (build_response 500 b None) = Some b"
  by (simp_all add: build_response_literal char_defs)

lemma build_response_distinct:
  "build_response 200 b None \<noteq> build_response 400 b' None"
  "build_response 404 b None \<noteq> build_response 400 b' None"
  "build_response 500 b None \<noteq> build_response 400 b' None"
  by (simp_all add: build_response_literal)

section \<open>The claims\<close>

text \<open>
  C3. For every status code, body and content type the response builder returns exactly
  the status line \<open>HTTP/1.1 <code> <reason>\<close>, the \<open>Content-Type\<close> header, the header
  \<open>Connection: close\<close>, a blank line and then the body unchanged. The reason is \<open>OK\<close>,
  \<open>Bad Request\<close>, \<open>Not Found\<close> or \<open>Internal Server Error\<close> for 200, 400, 404 and 500 and
  \<open>Unknown\<close> for every other code; there is no other header (no content length), and the
  content type of a call that gives none is \<open>text/html; charset=utf-8\<close>.
\<close>

theorem build_response_format:
  "build_response c b cto =
     ''HTTP/1.1 '' @ str_int c @ '' ''
     @ (if c = 200 then ''OK''
        else if c = 400 then ''Bad Request''
        else if c = 404 then ''Not Found''
        else if c = 500 then ''Internal Server Error''
        else ''Unknown'') @ CRLF
     @ ''Content-Type: '' @ (case cto of None \<Rightarrow> ''text/html; charset=utf-8'' | Some ct \<Rightarrow> ct)
     @ CRLF
     @ ''Connection: close'' @ CRLF
     @ CRLF
     @ b"
  by (simp add: build_response_def HTTP_STATUS_cases)

theorem build_response_format_witness:
  "build_response 404 ''<h1>404 Not Found</h1>'' None =
     ''HTTP/1.1 404 Not Found'' @ CRLF
     @ ''Content-Type: text/html; charset=utf-8'' @ CRLF
     @ ''Connection: close'' @ CRLF
     @ CRLF
     @ ''<h1>404 Not Found</h1>''
   \<and> build_response 418 ''x'' (Some ''text/plain'') =
     ''HTTP/1.1 418 Unknown'' @ CRLF
     @ ''Content-Type: text/plain'' @ CRLF
     @ ''Connection: close'' @ CRLF
     @ CRLF
     @ ''x''
   \<and> build_response (- 1) [] None =
     ''HTTP/1.1 -1 Unknown'' @ CRLF
     @ ''Content-Type: text/html; charset=utf-8'' @ CRLF
     @ ''Connection: close'' @ CRLF
     @ CRLF"
  using build_response_format [of 404 "''<h1>404 Not Found</h1>''" None]
    build_response_format [of 418 "''x''" "Some ''text/plain''"]
    build_response_format [of "- 1" "[]" None]
  by (simp add: str_int_def str_nat.simps digit_char_def)

subsection \<open>Closing and sending, on every path\<close>

lemma count_Close_dispatch: "count_list (fst (dispatch rts req)) Close = 0"
  by (simp add: dispatch_tokens split: option.splits handler_outcome.splits)

lemma count_Close_except_clauses: "count_list (fst (except_clauses e)) Close = 0"
  by (cases e) auto

lemma count_list_append: "count_list (xs @ ys) a = count_list xs a + count_list ys a"
  by (induction xs) auto

lemma count_Close_try_body: "count_list (fst (try_body rts recv send)) Close = 0"
proof (cases recv)
  case (RecvRaises e)
  then show ?thesis by (simp add: try_body_def)
next
  case (Received d)
  show ?thesis
  proof (cases "dispatch rts d")
    case (Pair evs res)
    then have "count_list evs Close = 0"
      using count_Close_dispatch [of rts d] by simp
    then show ?thesis
      using Received Pair
      by (cases res) (simp_all add: try_body_def sock_sendall_def count_list_append)
  qed
qed

lemma try_except_finally_simps:
  "try_except_finally (evs, None) = \<lparr>trace = evs @ [Close], escaped = None\<rparr>"
  "try_except_finally (evs, Some e)
   = \<lparr>trace = evs @ fst (except_clauses e) @ [Close], escaped = snd (except_clauses e)\<rparr>"
  by (simp_all add: try_except_finally_def split: prod.splits)

lemma trace_try_except_finally:
  "count_list (fst body) Close = 0 \<Longrightarrow>
   count_list (trace (try_except_finally body)) Close = 1
   \<and> last (trace (try_except_finally body)) = Close"
proof (cases body)
  case (Pair evs raised)
  assume "count_list (fst body) Close = 0"
  then show ?thesis
    using Pair
    by (cases raised)
      (simp_all add: try_except_finally_simps count_list_append count_Close_except_clauses)
qed

lemma sends_handle_client_no_data:
  "sends (trace (handle_client rts (RecvRaises e) send)) = []"
  "sends (trace (handle_client rts (Received []) send)) = []"
  using sends_except_clauses [of e] sends_except_clauses [of UnboundLocalError]
  by (auto simp: handle_client_def try_body_def try_except_finally_def sends_append
      split: prod.splits)

lemma tokens_GET_root: "tokens ''GET / HTTP/1.1'' = [''GET'', ''/'', ''HTTP/1.1'']"
  by (simp add: str_split_def char_defs)

text \<open>
  C1, as the code has it. The socket is closed exactly once on every path, and the close is
  the last thing the handler does. At most one response is handed to the socket: exactly
  one when a non-empty request was received and dispatch produced a response (success,
  parse failure, missing route, handler raising an \<open>Exception\<close>), and none when the read
  timed out, failed, or returned no bytes.
\<close>

theorem handle_client_closes_once:
  "count_list (trace (handle_client rts recv send)) Close = 1
   \<and> last (trace (handle_client rts recv send)) = Close
   \<and> length (sends (trace (handle_client rts recv send))) \<le> 1
   \<and> sends (trace (handle_client rts recv send))
       = (case recv of
            RecvRaises e \<Rightarrow> []
          | Received d \<Rightarrow>
              (if d = [] then []
               else (case snd (dispatch rts d) of Inl e \<Rightarrow> [] | Inr r \<Rightarrow> [r])))"
proof -
  have closing: "count_list (trace (handle_client rts recv send)) Close = 1
      \<and> last (trace (handle_client rts recv send)) = Close"
    unfolding handle_client_def
    by (rule trace_try_except_finally) (rule count_Close_try_body)
  have sent: "sends (trace (handle_client rts recv send))
       = (case recv of
            RecvRaises e \<Rightarrow> []
          | Received d \<Rightarrow>
              (if d = [] then []
               else (case snd (dispatch rts d) of Inl e \<Rightarrow> [] | Inr r \<Rightarrow> [r])))"
  proof (cases recv)
    case (RecvRaises e)
    then show ?thesis by (simp add: sends_handle_client_no_data)
  next
    case (Received d)
    show ?thesis
    proof (cases "d = []")
      case True
      then show ?thesis using Received by (simp add: sends_handle_client_no_data)
    next
      case False
      obtain evs res where disp: "dispatch rts d = (evs, res)"
        by (cases "dispatch rts d")
      show ?thesis
      proof (cases res)
        case (Inl e)
        then show ?thesis
          using Received False disp sends_handle_client_raise [of d rts evs e send] by simp
      next
        case (Inr r)
        then show ?thesis
          using Received False disp sends_handle_client_response [of d rts evs r send] by simp
      qed
    qed
  qed
  have "length (sends (trace (handle_client rts recv send))) \<le> 1"
    unfolding sent by (simp split: recv_outcome.splits sum.splits)
  then show ?thesis using closing sent by blast
qed

text \<open>
  The theorem at the reference routes: a request for \<open>/\<close> gets one response and one close, a
  read of no bytes gets no response.
\<close>

theorem handle_client_closes_once_witness:
  "count_list (trace (handle_client (server_routes (Returns (Some ''<p>index</p>'')))
       (Received ''GET / HTTP/1.1'') SendOk)) Close = 1
   \<and> sends (trace (handle_client (server_routes (Returns (Some ''<p>index</p>'')))
       (Received ''GET / HTTP/1.1'') SendOk)) = [build_response 200 ''<p>index</p>'' None]
   \<and> sends (trace (handle_client (server_routes (Returns (Some ''<p>index</p>'')))
       (Received []) SendOk)) = []"
  using handle_client_closes_once [of "server_routes (Returns (Some ''<p>index</p>''))"
      "Received ''GET / HTTP/1.1''" SendOk]
    handle_client_closes_once [of "server_routes (Returns (Some ''<p>index</p>''))"
      "Received []" SendOk]
  by (simp add: dispatch_tokens tokens_GET_root server_routes_def route_def no_routes_def)

text \<open>
  C1 as stated fails: when the read times out with no data, the connection is closed once
  but no response is sent at all.
\<close>

theorem timeout_sends_no_response:
  "sends (trace (handle_client no_routes (RecvRaises TimeoutError) SendOk)) = []
   \<and> count_list (trace (handle_client no_routes (RecvRaises TimeoutError) SendOk)) Close = 1"
  by (simp add: handle_client_def try_body_def try_except_finally_def)

text \<open>
  C7. On a read that times out with no data the connection is closed and nothing is sent,
  but the condition is not logged as the warning the \<^verbatim>\<open>except asyncio.TimeoutError\<close> clause
  holds ready: the timeout is suppressed before it, the unbound \<^verbatim>\<open>request_data\<close> raises
  \<^verbatim>\<open>UnboundLocalError\<close>, and the handler logs an unexpected error at level \<open>ERROR\<close>.
\<close>

theorem timeout_logged_as_unexpected:
  "handle_client rts (RecvRaises TimeoutError) send
   = \<lparr>trace = [Log ERROR (Unexpected UnboundLocalError), Close], escaped = None\<rparr>"
  by (simp add: handle_client_def try_body_def try_except_finally_def)

subsection \<open>Registered paths\<close>

lemma first_line_Nil: "first_line [] = []"
  by (simp add: str_split_def)

lemma tokens_method_path:
  "CHR '' '' \<notin> set m \<Longrightarrow> CHR '' '' \<notin> set p \<Longrightarrow>
   str_split (m @ '' '' @ p @ '' '' @ v) '' '' = m # p # str_split v '' ''"
  using split_from_char_first [of "CHR '' ''" m "[]" "p @ '' '' @ v"]
    split_from_char_first [of "CHR '' ''" p "[]" v]
  by (simp add: str_split_def)

text \<open>
  C2, as the code has it. For every registered path P that contains no space and whose
  handler returns a non-empty body B, a request whose request line is \<open>GET P HTTP/1.1\<close>
  gets one response, whose status line starts with \<open>HTTP/1.1 200\<close> and whose body (the text
  after the blank line that ends the headers) is B.
\<close>

theorem registered_path_gets_200:
  assumes "rts P = Some h" and "h () = Returns (Some B)" and "B \<noteq> []"
    and "CHR '' '' \<notin> set P"
    and "first_line req = ''GET '' @ P @ '' HTTP/1.1''"
  shows "sends (trace (handle_client rts (Received req) send)) = [build_response 200 B None]
         \<and> prefix ''HTTP/1.1 200'' (build_response 200 B None)
         \<and> after_blank_line (build_response 200 B None) = Some B"
proof -
  have nonempty: "req \<noteq> []"
    using assms(5) first_line_Nil by auto
  have toks: "tokens req = ''GET'' # P # str_split ''HTTP/1.1'' '' ''"
    using assms(4,5) tokens_method_path [of "''GET''" P "''HTTP/1.1''"] by simp
  have "dispatch rts req = ([Lookup P, Invoke P], Inr (build_response 200 B None))"
    using assms(1,2) by (simp add: dispatch_tokens toks)
  then have "sends (trace (handle_client rts (Received req) send)) = [build_response 200 B None]"
    using nonempty by (rule sends_handle_client_response [rotated])
  moreover have "prefix ''HTTP/1.1 200'' (build_response 200 B None)"
    by (simp add: build_response_literal)
  ultimately show ?thesis
    by (simp add: after_blank_line_default)
qed

lemma first_line_GET_hello:
  "first_line (''GET /hello HTTP/1.1'' @ CRLF @ CRLF) = ''GET /hello HTTP/1.1''"
  by (simp add: str_split_def char_defs)

lemma hello_unit: "hello () = Returns (Some ''<h1>Hello World!</h1><p>HEHEHE It's works!!!</p>'')"
  by (simp add: hello_def)

text \<open>The theorem at the route \<open>/hello\<close> of the reference deployment.\<close>

theorem registered_path_gets_200_witness:
  "server_routes (Returns None) ''/hello'' = Some hello
   \<and> hello () = Returns (Some ''<h1>Hello World!</h1><p>HEHEHE It's works!!!</p>'')
   \<and> ''<h1>Hello World!</h1><p>HEHEHE It's works!!!</p>'' \<noteq> []
   \<and> CHR '' '' \<notin> set ''/hello''
   \<and> first_line (''GET /hello HTTP/1.1'' @ CRLF @ CRLF) = ''GET '' @ ''/hello'' @ '' HTTP/1.1''
   \<and> sends (trace (handle_client (server_routes (Returns None))
         (Received (''GET /hello HTTP/1.1'' @ CRLF @ CRLF)) SendOk))
       = [build_response 200 ''<h1>Hello World!</h1><p>HEHEHE It's works!!!</p>'' None]
   \<and> after_blank_line (build_response 200 ''<h1>Hello World!</h1><p>HEHEHE It's works!!!</p>'' None)
       = Some ''<h1>Hello World!</h1><p>HEHEHE It's works!!!</p>''"
proof -
  have h1: "server_routes (Returns None) ''/hello'' = Some hello"
    by (simp add: server_routes_def route_def)
  have h3: "''<h1>Hello World!</h1><p>HEHEHE It's works!!!</p>'' \<noteq> []" by simp
  have h4: "CHR '' '' \<notin> set ''/hello''" by simp
  have h5: "first_line (''GET /hello HTTP/1.1'' @ CRLF @ CRLF) = ''GET '' @ ''/hello'' @ '' HTTP/1.1''"
    unfolding first_line_GET_hello by simp
  show ?thesis
    using registered_path_gets_200 [of "server_routes (Returns None)" "''/hello''" hello
        "''<h1>Hello World!</h1><p>HEHEHE It's works!!!</p>''"
        "''GET /hello HTTP/1.1'' @ CRLF @ CRLF" SendOk, OF h1 hello_unit h3 h4 h5]
      h1 hello_unit h5
    by simp
qed

lemma first_line_GET_a_b:
  "first_line (''GET /a b HTTP/1.1'' @ CRLF @ CRLF) = ''GET /a b HTTP/1.1''"
  by (simp add: str_split_def char_defs)

text \<open>
  C2 as stated fails for a registered path with a space in it: the request line is split
  on single spaces, the path token is only the part before the space, and the lookup
  misses.
\<close>

theorem path_with_space_gets_404:
  "route no_routes ''/a b'' hello ''/a b'' = Some hello
   \<and> hello () = Returns (Some ''<h1>Hello World!</h1><p>HEHEHE It's works!!!</p>'')
   \<and> first_line (''GET /a b HTTP/1.1'' @ CRLF @ CRLF) = ''GET '' @ ''/a b'' @ '' HTTP/1.1''
   \<and> sends (trace (handle_client (route no_routes ''/a b'' hello)
         (Received (''GET /a b HTTP/1.1'' @ CRLF @ CRLF)) SendOk))
       = [build_response 404 ''<h1>404 Not Found</h1>'' None]
   \<and> \<not> prefix ''HTTP/1.1 200'' (build_response 404 ''<h1>404 Not Found</h1>'' None)"
proof -
  have toks: "tokens (''GET /a b HTTP/1.1'' @ CRLF @ CRLF) = [''GET'', ''/a'', ''b'', ''HTTP/1.1'']"
    unfolding first_line_GET_a_b by (simp add: str_split_def)
  have "dispatch (route no_routes ''/a b'' hello) (''GET /a b HTTP/1.1'' @ CRLF @ CRLF)
        = ([Lookup ''/a''], Inr (build_response 404 ''<h1>404 Not Found</h1>'' None))"
    unfolding dispatch_tokens toks by (simp add: route_def no_routes_def)
  then have "sends (trace (handle_client (route no_routes ''/a b'' hello)
         (Received (''GET /a b HTTP/1.1'' @ CRLF @ CRLF)) SendOk))
       = [build_response 404 ''<h1>404 Not Found</h1>'' None]"
    by (rule sends_handle_client_response [rotated]) simp
  moreover have "first_line (''GET /a b HTTP/1.1'' @ CRLF @ CRLF) = ''GET '' @ ''/a b'' @ '' HTTP/1.1''"
    unfolding first_line_GET_a_b by simp
  ultimately show ?thesis
    by (simp add: route_def hello_unit build_response_literal)
qed

subsection \<open>Missing routes, short request lines, failing handlers\<close>

lemma no_route_access_except_clauses: "\<not> list_ex is_route_access (fst (except_clauses e))"
  by (cases e) auto

lemma snd_except_clauses_cases:
  "snd (except_clauses x) = (if is_Exception x then None else Some x)"
  by (cases x) auto

lemma set_trace_handle_client_response:
  assumes "req \<noteq> []" and "dispatch rts req = (evs, Inr r)"
  shows "set evs \<subseteq> set (trace (handle_client rts (Received req) send))"
  using assms by (auto simp: trace_handle_client_response)

lemma dispatch_not_400:
  "\<not> length (tokens req) < 2 \<Longrightarrow>
   snd (dispatch rts req) \<noteq> Inr (build_response 400 ''<h1>400 Bad Request</h1>'' None)"
  by (simp add: dispatch_tokens build_response_distinct
      split: option.splits handler_outcome.splits)

lemma sends_handle_client_received:
  "req \<noteq> [] \<Longrightarrow>
   sends (trace (handle_client rts (Received req) send))
   = (case snd (dispatch rts req) of Inl e \<Rightarrow> [] | Inr r \<Rightarrow> [r])"
proof -
  assume nonempty: "req \<noteq> []"
  obtain evs res where disp: "dispatch rts req = (evs, res)"
    by (cases "dispatch rts req")
  show ?thesis
  proof (cases res)
    case (Inl e)
    then show ?thesis
      using nonempty disp sends_handle_client_raise [of req rts evs e send] by simp
  next
    case (Inr r)
    then show ?thesis
      using nonempty disp sends_handle_client_response [of req rts evs r send] by simp
  qed
qed

text \<open>
  C4. For a received request whose path token is not a key of the route table the response
  sent has status 404; and with a table in which that path is registered to a handler that
  returns \<^verbatim>\<open>None\<close>, the response sent is the very same text: the same 404 status line and
  the same minimal body.
\<close>

theorem unmatched_and_None_get_same_404:
  assumes "req \<noteq> []" and "\<not> length (tokens req) < 2"
    and "rts (tokens req ! 1) = None"
    and "rts' (tokens req ! 1) = Some h" and "h () = Returns None"
  shows "sends (trace (handle_client rts (Received req) send))
           = [build_response 404 ''<h1>404 Not Found</h1>'' None]
         \<and> sends (trace (handle_client rts' (Received req) send))
           = sends (trace (handle_client rts (Received req) send))
         \<and> prefix ''HTTP/1.1 404 '' (build_response 404 ''<h1>404 Not Found</h1>'' None)
         \<and> after_blank_line (build_response 404 ''<h1>404 Not Found</h1>'' None)
           = Some ''<h1>404 Not Found</h1>''"
proof -
  have "snd (dispatch rts req) = Inr (build_response 404 ''<h1>404 Not Found</h1>'' None)"
    using assms(2,3) by (simp add: dispatch_tokens)
  then have miss: "sends (trace (handle_client rts (Received req) send))
           = [build_response 404 ''<h1>404 Not Found</h1>'' None]"
    using assms(1) by (simp add: sends_handle_client_received)
  have "snd (dispatch rts' req) = Inr (build_response 404 ''<h1>404 Not Found</h1>'' None)"
    using assms(2,4,5) by (simp add: dispatch_tokens)
  then have "sends (trace (handle_client rts' (Received req) send))
           = [build_response 404 ''<h1>404 Not Found</h1>'' None]"
    using assms(1) by (simp add: sends_handle_client_received)
  moreover have "prefix ''HTTP/1.1 404 '' (build_response 404 ''<h1>404 Not Found</h1>'' None)"
    by (simp add: build_response_literal)
  ultimately show ?thesis
    using miss by (simp add: after_blank_line_default)
qed

text \<open>
  The theorem at \<open>GET / HTTP/1.1\<close>: the empty table against the reference routes whose
  handler for \<open>/\<close> returns \<^verbatim>\<open>None\<close>.
\<close>

theorem unmatched_and_None_get_same_404_witness:
  "''GET / HTTP/1.1'' \<noteq> [] \<and> \<not> length (tokens ''GET / HTTP/1.1'') < 2
   \<and> no_routes (tokens ''GET / HTTP/1.1'' ! 1) = None
   \<and> server_routes (Returns None) (tokens ''GET / HTTP/1.1'' ! 1) = Some (\<lambda>u. Returns None)
   \<and> sends (trace (handle_client no_routes (Received ''GET / HTTP/1.1'') SendOk))
       = [build_response 404 ''<h1>404 Not Found</h1>'' None]
   \<and> sends (trace (handle_client (server_routes (Returns None))
         (Received ''GET / HTTP/1.1'') SendOk))
       = sends (trace (handle_client no_routes (Received ''GET / HTTP/1.1'') SendOk))"
proof -
  have h1: "''GET / HTTP/1.1'' \<noteq> []" by simp
  have h2: "\<not> length (tokens ''GET / HTTP/1.1'') < 2"
    unfolding tokens_GET_root by simp
  have h3: "no_routes (tokens ''GET / HTTP/1.1'' ! 1) = None"
    by (simp add: no_routes_def)
  have h4: "server_routes (Returns None) (tokens ''GET / HTTP/1.1'' ! 1) = Some (\<lambda>u. Returns None)"
    unfolding tokens_GET_root by (simp add: server_routes_def route_def)
  have h5: "(\<lambda>u. Returns None) () = Returns None" by simp
  show ?thesis
    using unmatched_and_None_get_same_404 [of "''GET / HTTP/1.1''" no_routes
        "server_routes (Returns None)" "\<lambda>u. Returns None" SendOk, OF h1 h2 h3 h4 h5]
      h2 h3 h4
    by simp
qed

text \<open>
  C5. For a received request whose request line, split on single spaces, has fewer than two
  tokens, the handler sends the 400 response with its minimal body; the route table is
  neither looked up nor is any handler invoked, and the outcome is the same whatever the
  route table holds.
\<close>

theorem short_request_line_gets_400:
  assumes "req \<noteq> []" and "length (tokens req) < 2"
  shows "sends (trace (handle_client rts (Received req) send))
           = [build_response 400 ''<h1>400 Bad Request</h1>'' None]
         \<and> prefix ''HTTP/1.1 400 '' (build_response 400 ''<h1>400 Bad Request</h1>'' None)
         \<and> after_blank_line (build_response 400 ''<h1>400 Bad Request</h1>'' None)
           = Some ''<h1>400 Bad Request</h1>''
         \<and> \<not> list_ex is_route_access (trace (handle_client rts (Received req) send))
         \<and> handle_client rts' (Received req) send = handle_client rts (Received req) send"
proof -
  have disp: "dispatch rts req = ([], Inr (build_response 400 ''<h1>400 Bad Request</h1>'' None))"
    for rts
    using assms(2) by (simp add: dispatch_tokens)
  have "sends (trace (handle_client rts (Received req) send))
           = [build_response 400 ''<h1>400 Bad Request</h1>'' None]"
    using assms(1) disp by (rule sends_handle_client_response)
  moreover have "\<not> list_ex is_route_access (trace (handle_client rts (Received req) send))"
    using assms(1) disp [of rts]
    by (simp add: trace_handle_client_response no_route_access_except_clauses
        split: send_outcome.splits)
  moreover have "handle_client rts' (Received req) send = handle_client rts (Received req) send"
    using assms(1) disp [of rts] disp [of rts'] by (simp add: handle_client_def try_body_def)
  moreover have "prefix ''HTTP/1.1 400 '' (build_response 400 ''<h1>400 Bad Request</h1>'' None)"
    by (simp add: build_response_literal)
  ultimately show ?thesis
    by (simp add: after_blank_line_default)
qed

lemma tokens_GET_only: "tokens (''GET'' @ CRLF @ CRLF) = [''GET'']"
  by (simp add: str_split_def char_defs)

text \<open>
  The theorem at the request \<open>GET\<close> followed by two line ends.
\<close>

theorem short_request_line_gets_400_witness:
  "''GET'' @ CRLF @ CRLF \<noteq> [] \<and> length (tokens (''GET'' @ CRLF @ CRLF)) < 2
   \<and> sends (trace (handle_client (server_routes (Returns None))
         (Received (''GET'' @ CRLF @ CRLF)) SendOk))
       = [build_response 400 ''<h1>400 Bad Request</h1>'' None]
   \<and> \<not> list_ex is_route_access (trace (handle_client (server_routes (Returns None))
         (Received (''GET'' @ CRLF @ CRLF)) SendOk))"
proof -
  have h1: "''GET'' @ CRLF @ CRLF \<noteq> []" by simp
  have h2: "length (tokens (''GET'' @ CRLF @ CRLF)) < 2"
    unfolding tokens_GET_only by simp
  show ?thesis
    using short_request_line_gets_400 [of "''GET'' @ CRLF @ CRLF" "server_routes (Returns None)"
        SendOk no_routes, OF h1 h2] h2
    by simp
qed

lemma tokens_GET_hello: "tokens ''GET /hello HTTP/1.1'' = [''GET'', ''/hello'', ''HTTP/1.1'']"
  by (simp add: str_split_def char_defs)

text \<open>
  C6, as the code has it. For a registered path whose handler raises an instance of
  \<^verbatim>\<open>Exception\<close>, the connection gets the 500 response with its minimal body and the failure
  is logged with the path. The handler's exception never leaves the connection handler
  (only what the send itself raises outside \<^verbatim>\<open>Exception\<close> can), and when the accept loop
  has reached this connection and the send raises neither \<^verbatim>\<open>SystemExit\<close> nor
  \<^verbatim>\<open>KeyboardInterrupt\<close>, the loop goes on and handles the later connections as it would
  by themselves.
\<close>

theorem raising_handler_gets_500:
  assumes "req \<noteq> []" and "\<not> length (tokens req) < 2"
    and "rts (tokens req ! 1) = Some h" and "h () = Raises e" and "is_Exception e"
  shows "sends (trace (handle_client rts (Received req) send))
           = [build_response 500 ''<h1>500 Internal Server Error</h1>'' None]
         \<and> prefix ''HTTP/1.1 500 ''
             (build_response 500 ''<h1>500 Internal Server Error</h1>'' None)
         \<and> after_blank_line (build_response 500 ''<h1>500 Internal Server Error</h1>'' None)
           = Some ''<h1>500 Internal Server Error</h1>''
         \<and> Log ERROR (RouteError (tokens req ! 1) e)
             \<in> set (trace (handle_client rts (Received req) send))
         \<and> escaped (handle_client rts (Received req) send)
           = (case send of
                SendOk \<Rightarrow> None
              | SendRaises x \<Rightarrow> if is_Exception x then None else Some x)
         \<and> (snd (run_server rts earlier) = None
              \<and> (case send of SendOk \<Rightarrow> True | SendRaises x \<Rightarrow> \<not> stops_loop x)
            \<longrightarrow> run_server rts (earlier @ (Received req, send) # later)
                = (fst (run_server rts earlier) @ handle_client rts (Received req) send
                     # fst (run_server rts later),
                   snd (run_server rts later)))"
proof -
  have disp: "dispatch rts req
      = ([Lookup (tokens req ! 1), Invoke (tokens req ! 1),
          Log ERROR (RouteError (tokens req ! 1) e)],
         Inr (build_response 500 ''<h1>500 Internal Server Error</h1>'' None))"
    using assms(2-5) by (simp add: dispatch_tokens)
  have sent: "sends (trace (handle_client rts (Received req) send))
           = [build_response 500 ''<h1>500 Internal Server Error</h1>'' None]"
    using assms(1) disp by (rule sends_handle_client_response)
  have logged: "Log ERROR (RouteError (tokens req ! 1) e)
             \<in> set (trace (handle_client rts (Received req) send))"
    using set_trace_handle_client_response [OF assms(1) disp, of send] by simp
  have esc: "escaped (handle_client rts (Received req) send)
           = (case send of
                SendOk \<Rightarrow> None
              | SendRaises x \<Rightarrow> if is_Exception x then None else Some x)"
    using assms(1) disp
    by (simp add: trace_handle_client_response snd_except_clauses_cases
        split: send_outcome.splits)
  have shape: "prefix ''HTTP/1.1 500 ''
             (build_response 500 ''<h1>500 Internal Server Error</h1>'' None)"
    by (simp add: build_response_literal)
  have loop: "run_server rts (earlier @ (Received req, send) # later)
                = (fst (run_server rts earlier) @ handle_client rts (Received req) send
                     # fst (run_server rts later),
                   snd (run_server rts later))"
    if reached: "snd (run_server rts earlier) = None"
      and quiet: "case send of SendOk \<Rightarrow> True | SendRaises x \<Rightarrow> \<not> stops_loop x"
  proof -
    have "case escaped (handle_client rts (Received req) send) of
            None \<Rightarrow> True | Some x \<Rightarrow> \<not> stops_loop x"
      using quiet unfolding esc by (simp split: send_outcome.splits)
    then have "run_server rts ((Received req, send) # later)
         = (handle_client rts (Received req) send # fst (run_server rts later),
            snd (run_server rts later))"
      by (rule run_server_continues)
    then show ?thesis
      using run_server_append [OF reached, of "(Received req, send) # later"] by simp
  qed
  show ?thesis
    using sent logged esc shape loop
    by (simp add: after_blank_line_default)
qed

text \<open>
  The theorem at the reference routes when the template of \<open>/\<close> is missing: the request for
  \<open>/\<close> gets the 500 response, and the request for \<open>/hello\<close> that follows is handled.
\<close>

theorem raising_handler_gets_500_witness:
  "''GET / HTTP/1.1'' \<noteq> [] \<and> \<not> length (tokens ''GET / HTTP/1.1'') < 2
   \<and> server_routes (Raises (OtherException ''FileNotFoundError'')) (tokens ''GET / HTTP/1.1'' ! 1)
       = Some (\<lambda>u. Raises (OtherException ''FileNotFoundError''))
   \<and> is_Exception (OtherException ''FileNotFoundError'')
   \<and> snd (run_server (server_routes (Raises (OtherException ''FileNotFoundError''))) []) = None
   \<and> sends (trace (handle_client (server_routes (Raises (OtherException ''FileNotFoundError'')))
         (Received ''GET / HTTP/1.1'') SendOk))
       = [build_response 500 ''<h1>500 Internal Server Error</h1>'' None]
   \<and> escaped (handle_client (server_routes (Raises (OtherException ''FileNotFoundError'')))
         (Received ''GET / HTTP/1.1'') SendOk) = None
   \<and> run_server (server_routes (Raises (OtherException ''FileNotFoundError'')))
         [(Received ''GET / HTTP/1.1'', SendOk), (Received ''GET /hello HTTP/1.1'', SendOk)]
       = ([handle_client (server_routes (Raises (OtherException ''FileNotFoundError'')))
             (Received ''GET / HTTP/1.1'') SendOk,
           handle_client (server_routes (Raises (OtherException ''FileNotFoundError'')))
             (Received ''GET /hello HTTP/1.1'') SendOk],
          None)"
proof -
  have h1: "''GET / HTTP/1.1'' \<noteq> []" by simp
  have h2: "\<not> length (tokens ''GET / HTTP/1.1'') < 2"
    unfolding tokens_GET_root by simp
  have h3: "server_routes (Raises (OtherException ''FileNotFoundError''))
        (tokens ''GET / HTTP/1.1'' ! 1)
      = Some (\<lambda>u. Raises (OtherException ''FileNotFoundError''))"
    unfolding tokens_GET_root by (simp add: server_routes_def route_def)
  have h4: "(\<lambda>u. Raises (OtherException ''FileNotFoundError'')) ()
      = Raises (OtherException ''FileNotFoundError'')" by simp
  have h5: "is_Exception (OtherException ''FileNotFoundError'')" by simp
  have "dispatch (server_routes (Raises (OtherException ''FileNotFoundError'')))
          ''GET /hello HTTP/1.1''
        = ([Lookup ''/hello'', Invoke ''/hello''],
           Inr (build_response 200 ''<h1>Hello World!</h1><p>HEHEHE It's works!!!</p>'' None))"
    unfolding dispatch_tokens tokens_GET_hello
    by (simp add: server_routes_def route_def hello_def)
  then have "escaped (handle_client (server_routes (Raises (OtherException ''FileNotFoundError'')))
         (Received ''GET /hello HTTP/1.1'') SendOk) = None"
    by (simp add: trace_handle_client_response)
  then have later: "run_server (server_routes (Raises (OtherException ''FileNotFoundError'')))
        [(Received ''GET /hello HTTP/1.1'', SendOk)]
      = ([handle_client (server_routes (Raises (OtherException ''FileNotFoundError'')))
            (Received ''GET /hello HTTP/1.1'') SendOk], None)"
    by (simp add: Let_def)
  show ?thesis
    using raising_handler_gets_500 [of "''GET / HTTP/1.1''"
        "server_routes (Raises (OtherException ''FileNotFoundError''))"
        "\<lambda>u. Raises (OtherException ''FileNotFoundError'')"
        "OtherException ''FileNotFoundError''" SendOk "[]"
        "[(Received ''GET /hello HTTP/1.1'', SendOk)]", OF h1 h2 h3 h4 h5]
      h2 h3 later
    by simp
qed

text \<open>
  C6 as stated fails for a handler that raises outside \<^verbatim>\<open>Exception\<close>: when the handler of
  \<open>/\<close> raises \<^verbatim>\<open>SystemExit\<close>, neither \<^verbatim>\<open>except Exception\<close> clause catches it, no response is
  sent, the exception leaves the connection handler, and the accept loop ends without
  handling the request for \<open>/hello\<close> that follows.
\<close>

theorem handler_raising_SystemExit_escapes:
  "server_routes (Raises SystemExit) (tokens ''GET / HTTP/1.1'' ! 1)
       = Some (\<lambda>u. Raises SystemExit)
   \<and> sends (trace (handle_client (server_routes (Raises SystemExit))
         (Received ''GET / HTTP/1.1'') SendOk)) = []
   \<and> escaped (handle_client (server_routes (Raises SystemExit))
         (Received ''GET / HTTP/1.1'') SendOk) = Some SystemExit
   \<and> run_server (server_routes (Raises SystemExit))
         [(Received ''GET / HTTP/1.1'', SendOk), (Received ''GET /hello HTTP/1.1'', SendOk)]
       = ([handle_client (server_routes (Raises SystemExit)) (Received ''GET / HTTP/1.1'') SendOk],
          Some SystemExit)"
proof -
  have registered: "server_routes (Raises SystemExit) (tokens ''GET / HTTP/1.1'' ! 1)
       = Some (\<lambda>u. Raises SystemExit)"
    unfolding tokens_GET_root by (simp add: server_routes_def route_def)
  have disp: "dispatch (server_routes (Raises SystemExit)) ''GET / HTTP/1.1''
        = ([Lookup ''/'', Invoke ''/''], Inl SystemExit)"
    unfolding dispatch_tokens tokens_GET_root
    by (simp add: server_routes_def route_def)
  have ne: "''GET / HTTP/1.1'' \<noteq> []" by simp
  have sent: "sends (trace (handle_client (server_routes (Raises SystemExit))
         (Received ''GET / HTTP/1.1'') SendOk)) = []"
    using ne disp by (rule sends_handle_client_raise)
  have esc: "escaped (handle_client (server_routes (Raises SystemExit))
         (Received ''GET / HTTP/1.1'') SendOk) = Some SystemExit"
    using escaped_handle_client_raise [OF ne disp, of SendOk] by simp
  have "run_server (server_routes (Raises SystemExit))
         [(Received ''GET / HTTP/1.1'', SendOk), (Received ''GET /hello HTTP/1.1'', SendOk)]
       = ([handle_client (server_routes (Raises SystemExit)) (Received ''GET / HTTP/1.1'') SendOk],
          Some SystemExit)"
    using esc by (rule run_server_stops) simp
  then show ?thesis
    using registered sent esc by simp
qed

subsection \<open>The method token and the shape of the request line\<close>

lemma first_line_method:
  "\<not> sublist CRLF m \<Longrightarrow> first_line (m @ '' '' @ r) = m @ '' '' @ first_line r"
  using hd_split_CRLF_method [of m "[]" r] by (simp add: str_split_def)

lemma tokens_method:
  assumes "CHR '' '' \<notin> set m" and "\<not> sublist CRLF m"
  shows "tokens (m @ '' '' @ r) = m # tokens r"
proof -
  have "first_line (m @ '' '' @ r) = m @ '' '' @ first_line r"
    using assms(2) by (rule first_line_method)
  then have "tokens (m @ '' '' @ r) = str_split (m @ '' '' @ first_line r) '' ''"
    by (simp only:)
  also have "\<dots> = m # tokens r"
    using split_from_char_first [OF assms(1), of "[]" "first_line r"]
    by (simp add: str_split_def)
  finally show ?thesis .
qed

lemma dispatch_method:
  assumes "CHR '' '' \<notin> set m1" and "\<not> sublist CRLF m1"
    and "CHR '' '' \<notin> set m2" and "\<not> sublist CRLF m2"
  shows "dispatch rts (m1 @ '' '' @ r) = dispatch rts (m2 @ '' '' @ r)"
proof -
  have t1: "tokens (m1 @ '' '' @ r) = m1 # tokens r"
    using assms(1,2) by (rule tokens_method)
  have t2: "tokens (m2 @ '' '' @ r) = m2 # tokens r"
    using assms(3,4) by (rule tokens_method)
  have path: "tokens (m1 @ '' '' @ r) ! 1 = tokens (m2 @ '' '' @ r) ! 1"
    using t1 t2 by simp
  have len: "(length (tokens (m1 @ '' '' @ r)) < 2) = (length (tokens (m2 @ '' '' @ r)) < 2)"
    using t1 t2 by simp
  show ?thesis
    unfolding dispatch_tokens [of rts "m1 @ '' '' @ r"] dispatch_tokens [of rts "m2 @ '' '' @ r"]
      path len
    by (rule refl)
qed

lemma handle_client_same_dispatch:
  assumes "req1 \<noteq> []" and "req2 \<noteq> []" and "dispatch rts req1 = dispatch rts req2"
  shows "tl (trace (handle_client rts (Received req1) send))
           = tl (trace (handle_client rts (Received req2) send))"
    and "escaped (handle_client rts (Received req1) send)
           = escaped (handle_client rts (Received req2) send)"
  using assms
  by (auto simp: handle_client_def try_body_def try_except_finally_def sock_sendall_def
      split: prod.splits sum.splits option.splits)

text \<open>
  C9. Two received requests that differ only in the method token (the text before the first
  space, itself free of spaces and line ends; the same bytes after it) get the same
  response: the method is the first token and nothing else, the remaining tokens
  are the same, and apart from the logged request text the handler does the same things,
  whatever the route table holds.
\<close>

theorem method_token_is_ignored:
  assumes "CHR '' '' \<notin> set m1" and "\<not> sublist CRLF m1"
    and "CHR '' '' \<notin> set m2" and "\<not> sublist CRLF m2"
  shows "sends (trace (handle_client rts (Received (m1 @ '' '' @ rest)) send))
           = sends (trace (handle_client rts (Received (m2 @ '' '' @ rest)) send))
         \<and> tl (trace (handle_client rts (Received (m1 @ '' '' @ rest)) send))
           = tl (trace (handle_client rts (Received (m2 @ '' '' @ rest)) send))
         \<and> escaped (handle_client rts (Received (m1 @ '' '' @ rest)) send)
           = escaped (handle_client rts (Received (m2 @ '' '' @ rest)) send)
         \<and> hd (tokens (m1 @ '' '' @ rest)) = m1 \<and> hd (tokens (m2 @ '' '' @ rest)) = m2
         \<and> tl (tokens (m1 @ '' '' @ rest)) = tl (tokens (m2 @ '' '' @ rest))"
proof -
  have disp: "dispatch rts (m1 @ '' '' @ rest) = dispatch rts (m2 @ '' '' @ rest)"
    using assms by (rule dispatch_method)
  have ne: "m1 @ '' '' @ rest \<noteq> []" "m2 @ '' '' @ rest \<noteq> []"
    by simp_all
  have "sends (trace (handle_client rts (Received (m1 @ '' '' @ rest)) send))
           = sends (trace (handle_client rts (Received (m2 @ '' '' @ rest)) send))"
    using disp
    by (simp only: sends_handle_client_received [OF ne(1)] sends_handle_client_received [OF ne(2)])
  moreover note handle_client_same_dispatch [OF ne disp, of send]
  moreover have "tokens (m1 @ '' '' @ rest) = m1 # tokens rest"
    using assms(1,2) by (rule tokens_method)
  moreover have "tokens (m2 @ '' '' @ rest) = m2 # tokens rest"
    using assms(3,4) by (rule tokens_method)
  ultimately show ?thesis by simp
qed

lemma tokens_POST_hello:
  "tokens (''POST'' @ '' '' @ ''/hello HTTP/1.1'' @ CRLF @ CRLF) = [''POST'', ''/hello'', ''HTTP/1.1'']"
  by (simp add: str_split_def char_defs)

text \<open>
  The theorem at \<open>GET\<close> against \<open>POST\<close> on \<open>/hello\<close> of the reference routes: both get the 200
  response of the same handler.
\<close>

theorem method_token_is_ignored_witness:
  "CHR '' '' \<notin> set ''GET'' \<and> \<not> sublist CRLF ''GET''
   \<and> CHR '' '' \<notin> set ''POST'' \<and> \<not> sublist CRLF ''POST''
   \<and> sends (trace (handle_client (server_routes (Returns None))
         (Received (''POST'' @ '' '' @ ''/hello HTTP/1.1'' @ CRLF @ CRLF)) SendOk))
       = [build_response 200 ''<h1>Hello World!</h1><p>HEHEHE It's works!!!</p>'' None]
   \<and> sends (trace (handle_client (server_routes (Returns None))
         (Received (''GET'' @ '' '' @ ''/hello HTTP/1.1'' @ CRLF @ CRLF)) SendOk))
       = [build_response 200 ''<h1>Hello World!</h1><p>HEHEHE It's works!!!</p>'' None]"
proof -
  have h1: "CHR '' '' \<notin> set ''GET''" by simp
  have h2: "\<not> sublist CRLF ''GET''" by (simp add: sublist_code char_defs)
  have h3: "CHR '' '' \<notin> set ''POST''" by simp
  have h4: "\<not> sublist CRLF ''POST''" by (simp add: sublist_code char_defs)
  have "dispatch (server_routes (Returns None))
          (''POST'' @ '' '' @ ''/hello HTTP/1.1'' @ CRLF @ CRLF)
        = ([Lookup ''/hello'', Invoke ''/hello''],
           Inr (build_response 200 ''<h1>Hello World!</h1><p>HEHEHE It's works!!!</p>'' None))"
    unfolding dispatch_tokens tokens_POST_hello
    by (simp add: server_routes_def route_def hello_def)
  then have post: "sends (trace (handle_client (server_routes (Returns None))
         (Received (''POST'' @ '' '' @ ''/hello HTTP/1.1'' @ CRLF @ CRLF)) SendOk))
       = [build_response 200 ''<h1>Hello World!</h1><p>HEHEHE It's works!!!</p>'' None]"
    by (rule sends_handle_client_response [rotated]) simp
  show ?thesis
    using method_token_is_ignored [of "''GET''" "''POST''" "server_routes (Returns None)"
        "''/hello HTTP/1.1'' @ CRLF @ CRLF" SendOk, OF h1 h2 h3 h4]
      h2 h4 post
    by simp
qed

text \<open>
  C10. For a received request the 400 response is sent if and only if the request line (the
  text up to the first line end) contains no space. In particular the request line \<open>GET\<close>
  followed by one space splits into the two tokens \<open>GET\<close> and the empty string, so the
  response is never the 400 one, and it is the 404 one when the empty path is not
  registered.
\<close>

theorem bad_request_iff_no_space:
  assumes "req \<noteq> []"
  shows "((sends (trace (handle_client rts (Received req) send))
            = [build_response 400 ''<h1>400 Bad Request</h1>'' None])
          = (CHR '' '' \<notin> set (first_line req)))
         \<and> (first_line req = ''GET '' \<longrightarrow>
              tokens req = [''GET'', []]
              \<and> sends (trace (handle_client rts (Received req) send))
                  \<noteq> [build_response 400 ''<h1>400 Bad Request</h1>'' None]
              \<and> (rts [] = None \<longrightarrow>
                   sends (trace (handle_client rts (Received req) send))
                   = [build_response 404 ''<h1>404 Not Found</h1>'' None]))"
proof -
  have short: "length (tokens req) < 2 \<longleftrightarrow> CHR '' '' \<notin> set (first_line req)"
    using length_str_split_char [of "first_line req" "CHR '' ''"] by simp
  have iff: "(sends (trace (handle_client rts (Received req) send))
            = [build_response 400 ''<h1>400 Bad Request</h1>'' None])
          = (CHR '' '' \<notin> set (first_line req))"
  proof (cases "length (tokens req) < 2")
    case True
    then have "snd (dispatch rts req) = Inr (build_response 400 ''<h1>400 Bad Request</h1>'' None)"
      by (simp add: dispatch_tokens)
    then show ?thesis
      using True short assms by (simp add: sends_handle_client_received)
  next
    case False
    then have "snd (dispatch rts req) \<noteq> Inr (build_response 400 ''<h1>400 Bad Request</h1>'' None)"
      by (rule dispatch_not_400)
    then have "sends (trace (handle_client rts (Received req) send))
            \<noteq> [build_response 400 ''<h1>400 Bad Request</h1>'' None]"
      using assms by (auto simp: sends_handle_client_received split: sum.splits)
    then show ?thesis using False short by simp
  qed
  have get: "tokens req = [''GET'', []]
              \<and> sends (trace (handle_client rts (Received req) send))
                  \<noteq> [build_response 400 ''<h1>400 Bad Request</h1>'' None]
              \<and> (rts [] = None \<longrightarrow>
                   sends (trace (handle_client rts (Received req) send))
                   = [build_response 404 ''<h1>404 Not Found</h1>'' None])"
    if line: "first_line req = ''GET ''"
  proof -
    have toks: "tokens req = [''GET'', []]"
      unfolding line by (simp add: str_split_def)
    have "CHR '' '' \<in> set (first_line req)"
      unfolding line by simp
    then have not400: "sends (trace (handle_client rts (Received req) send))
                  \<noteq> [build_response 400 ''<h1>400 Bad Request</h1>'' None]"
      using iff by simp
    have "sends (trace (handle_client rts (Received req) send))
                   = [build_response 404 ''<h1>404 Not Found</h1>'' None]"
      if "rts [] = None"
    proof -
      have "snd (dispatch rts req) = Inr (build_response 404 ''<h1>404 Not Found</h1>'' None)"
        unfolding dispatch_tokens toks using that by simp
      then show ?thesis
        using assms by (simp add: sends_handle_client_received)
    qed
    then show ?thesis using toks not400 by blast
  qed
  show ?thesis using iff get by blast
qed

lemma first_line_GET_space: "first_line (''GET '' @ CRLF @ CRLF) = ''GET ''"
  by (simp add: str_split_def char_defs)

text \<open>
  The theorem at the request \<open>GET\<close>, a space and two line ends, with the reference routes.
\<close>

theorem bad_request_iff_no_space_witness:
  "''GET '' @ CRLF @ CRLF \<noteq> []
   \<and> first_line (''GET '' @ CRLF @ CRLF) = ''GET ''
   \<and> server_routes (Returns None) [] = None
   \<and> tokens (''GET '' @ CRLF @ CRLF) = [''GET'', []]
   \<and> sends (trace (handle_client (server_routes (Returns None))
         (Received (''GET '' @ CRLF @ CRLF)) SendOk))
       = [build_response 404 ''<h1>404 Not Found</h1>'' None]
   \<and> sends (trace (handle_client (server_routes (Returns None))
         (Received (''GET '' @ CRLF @ CRLF)) SendOk))
       \<noteq> [build_response 400 ''<h1>400 Bad Request</h1>'' None]"
proof -
  have h1: "''GET '' @ CRLF @ CRLF \<noteq> []" by simp
  have h3: "server_routes (Returns None) [] = None"
    by (simp add: server_routes_def route_def no_routes_def)
  show ?thesis
    using bad_request_iff_no_space [of "''GET '' @ CRLF @ CRLF" "server_routes (Returns None)"
        SendOk, OF h1] h1 h3 first_line_GET_space
    by (simp add: build_response_distinct)
qed

subsection \<open>The fixed-route handler against the route-table handler\<close>

lemma count_Close_main_try_body: "count_list (fst (main_try_body recv send)) Close = 0"
  by (cases recv) (simp_all add: main_try_body_def sock_sendall_def)

lemma main_response_builder: "main_response = build_response 200 response_body (Some ''text/html'')"
  by (simp add: main_response_def build_response_def HTTP_STATUS_def str_int_codes)

lemma after_blank_line_main_response: "after_blank_line main_response = Some response_body"
  by (simp add: main_response_def char_defs)

lemma main_response_differs:
  "main_response \<noteq> build_response 200 b None"
  "main_response \<noteq> build_response 400 b None"
  by (simp_all add: main_response_def build_response_literal char_defs)

lemma sends_main_handle_client_received:
  "req \<noteq> [] \<Longrightarrow> sends (trace (main_handle_client (Received req) send)) = [main_response]"
  using sends_except_clauses
  by (cases send)
    (simp_all add: main_handle_client_def main_try_body_def sock_sendall_def
      try_except_finally_simps sends_append)

lemma escaped_main_handle_client_received:
  "req \<noteq> [] \<Longrightarrow>
   escaped (main_handle_client (Received req) send)
   = (case send of SendOk \<Rightarrow> None | SendRaises x \<Rightarrow> snd (except_clauses x))"
  by (cases send)
    (simp_all add: main_handle_client_def main_try_body_def sock_sendall_def
      try_except_finally_simps)

lemma dispatch_fixed_routes:
  "\<not> length (tokens req) < 2 \<Longrightarrow>
   dispatch fixed_routes req
   = ([Lookup (tokens req ! 1), Invoke (tokens req ! 1)],
      Inr (build_response 200 response_body None))"
  by (simp add: dispatch_tokens fixed_routes_def fixed_handler_def)

text \<open>
  C8, as the code has it. With a route table whose lookup always yields the fixed body, the
  fixed-route handler of main.py and the route-table handler of server.py both close the
  connection exactly once, as their last action, on every input, and have the same outcome
  when the read returns no bytes or raises anything but the timeout. For a non-empty
  request whose request line has at least two tokens both send one \<open>200 OK\<close> response with
  the same body; the two responses differ in the content type, main.py's being what the
  builder gives for \<open>text/html\<close>. For a request line of fewer than two tokens main.py still
  sends its 200 response where server.py sends the 400 one.
\<close>

theorem fixed_route_variant_agreement:
  "count_list (trace (main_handle_client recv send)) Close = 1
   \<and> last (trace (main_handle_client recv send)) = Close
   \<and> count_list (trace (handle_client fixed_routes recv send)) Close = 1
   \<and> last (trace (handle_client fixed_routes recv send)) = Close
   \<and> main_handle_client (Received []) send = handle_client fixed_routes (Received []) send
   \<and> (e \<noteq> TimeoutError \<longrightarrow>
        main_handle_client (RecvRaises e) send = handle_client fixed_routes (RecvRaises e) send)
   \<and> (req \<noteq> [] \<and> \<not> length (tokens req) < 2 \<longrightarrow>
        sends (trace (main_handle_client (Received req) send)) = [main_response]
        \<and> sends (trace (handle_client fixed_routes (Received req) send))
            = [build_response 200 response_body None]
        \<and> escaped (main_handle_client (Received req) send)
            = escaped (handle_client fixed_routes (Received req) send))
   \<and> (req \<noteq> [] \<and> length (tokens req) < 2 \<longrightarrow>
        sends (trace (main_handle_client (Received req) send)) = [main_response]
        \<and> sends (trace (handle_client fixed_routes (Received req) send))
            = [build_response 400 ''<h1>400 Bad Request</h1>'' None])
   \<and> main_response = build_response 200 response_body (Some ''text/html'')
   \<and> prefix ''HTTP/1.1 200 OK'' main_response
   \<and> prefix ''HTTP/1.1 200 OK'' (build_response 200 response_body None)
   \<and> after_blank_line main_response = Some response_body
   \<and> after_blank_line (build_response 200 response_body None) = Some response_body"
proof -
  have close_main: "count_list (trace (main_handle_client recv send)) Close = 1
      \<and> last (trace (main_handle_client recv send)) = Close"
    unfolding main_handle_client_def
    by (rule trace_try_except_finally) (rule count_Close_main_try_body)
  have close_server: "count_list (trace (handle_client fixed_routes recv send)) Close = 1
      \<and> last (trace (handle_client fixed_routes recv send)) = Close"
    unfolding handle_client_def
    by (rule trace_try_except_finally) (rule count_Close_try_body)
  have empty: "main_handle_client (Received []) send
      = handle_client fixed_routes (Received []) send"
    by (simp add: main_handle_client_def handle_client_def main_try_body_def try_body_def)
  have raises: "main_handle_client (RecvRaises e) send
      = handle_client fixed_routes (RecvRaises e) send" if "e \<noteq> TimeoutError"
    using that
    by (simp add: main_handle_client_def handle_client_def main_try_body_def try_body_def)
  have good: "sends (trace (main_handle_client (Received req) send)) = [main_response]
        \<and> sends (trace (handle_client fixed_routes (Received req) send))
            = [build_response 200 response_body None]
        \<and> escaped (main_handle_client (Received req) send)
            = escaped (handle_client fixed_routes (Received req) send)"
    if "req \<noteq> []" and "\<not> length (tokens req) < 2"
  proof -
    note disp = dispatch_fixed_routes [OF that(2)]
    have "sends (trace (handle_client fixed_routes (Received req) send))
            = [build_response 200 response_body None]"
      using that(1) disp by (rule sends_handle_client_response)
    moreover have "escaped (main_handle_client (Received req) send)
            = escaped (handle_client fixed_routes (Received req) send)"
      using that(1) disp
      by (simp add: escaped_main_handle_client_received trace_handle_client_response)
    ultimately show ?thesis
      using that(1) by (simp add: sends_main_handle_client_received)
  qed
  have short: "sends (trace (main_handle_client (Received req) send)) = [main_response]
        \<and> sends (trace (handle_client fixed_routes (Received req) send))
            = [build_response 400 ''<h1>400 Bad Request</h1>'' None]"
    if "req \<noteq> []" and "length (tokens req) < 2"
  proof -
    have "dispatch fixed_routes req
        = ([], Inr (build_response 400 ''<h1>400 Bad Request</h1>'' None))"
      using that(2) by (simp add: dispatch_tokens)
    then have "sends (trace (handle_client fixed_routes (Received req) send))
            = [build_response 400 ''<h1>400 Bad Request</h1>'' None]"
      using that(1) by (rule sends_handle_client_response [rotated])
    then show ?thesis
      using that(1) by (simp add: sends_main_handle_client_received)
  qed
  have shape: "prefix ''HTTP/1.1 200 OK'' main_response"
    "prefix ''HTTP/1.1 200 OK'' (build_response 200 response_body None)"
    by (simp_all add: main_response_def build_response_literal)
  show ?thesis
    using close_main close_server empty raises good short shape main_response_builder
      after_blank_line_main_response after_blank_line_default(1) [of response_body]
    by blast
qed

text \<open>
  The theorem at a connection reset during the read, at \<open>GET / HTTP/1.1\<close> and at \<open>GET\<close>.
\<close>

theorem fixed_route_variant_agreement_witness:
  "ConnectionResetError \<noteq> TimeoutError
   \<and> main_handle_client (RecvRaises ConnectionResetError) SendOk
       = handle_client fixed_routes (RecvRaises ConnectionResetError) SendOk
   \<and> ''GET / HTTP/1.1'' \<noteq> [] \<and> \<not> length (tokens ''GET / HTTP/1.1'') < 2
   \<and> sends (trace (main_handle_client (Received ''GET / HTTP/1.1'') SendOk)) = [main_response]
   \<and> sends (trace (handle_client fixed_routes (Received ''GET / HTTP/1.1'') SendOk))
       = [build_response 200 response_body None]
   \<and> ''GET'' \<noteq> [] \<and> length (tokens ''GET'') < 2
   \<and> sends (trace (main_handle_client (Received ''GET'') SendOk)) = [main_response]
   \<and> sends (trace (handle_client fixed_routes (Received ''GET'') SendOk))
       = [build_response 400 ''<h1>400 Bad Request</h1>'' None]"
proof -
  have h2: "\<not> length (tokens ''GET / HTTP/1.1'') < 2"
    unfolding tokens_GET_root by simp
  have h3: "length (tokens ''GET'') < 2"
    by (simp add: str_split_def char_defs)
  show ?thesis
    using fixed_route_variant_agreement [of "RecvRaises ConnectionResetError" SendOk
        ConnectionResetError "''GET / HTTP/1.1''"]
      fixed_route_variant_agreement [of "RecvRaises ConnectionResetError" SendOk
        ConnectionResetError "''GET''"]
      h2 h3
    by simp
qed

text \<open>
  C8 as stated fails: after a read that times out main.py sends its response and server.py
  sends nothing; for the one-token request line \<open>GET\<close> main.py answers 200 and server.py
  400; and for \<open>GET / HTTP/1.1\<close> the two responses are different texts.
\<close>

theorem fixed_route_variant_differs:
  "sends (trace (main_handle_client (RecvRaises TimeoutError) SendOk)) = [main_response]
   \<and> sends (trace (handle_client fixed_routes (RecvRaises TimeoutError) SendOk)) = []
   \<and> sends (trace (main_handle_client (Received ''GET'') SendOk)) = [main_response]
   \<and> sends (trace (handle_client fixed_routes (Received ''GET'') SendOk))
       = [build_response 400 ''<h1>400 Bad Request</h1>'' None]
   \<and> main_response \<noteq> build_response 400 ''<h1>400 Bad Request</h1>'' None
   \<and> sends (trace (main_handle_client (Received ''GET / HTTP/1.1'') SendOk)) = [main_response]
   \<and> sends (trace (handle_client fixed_routes (Received ''GET / HTTP/1.1'') SendOk))
       = [build_response 200 response_body None]
   \<and> main_response \<noteq> build_response 200 response_body None"
proof -
  have timeout_main:
    "sends (trace (main_handle_client (RecvRaises TimeoutError) SendOk)) = [main_response]"
    by (simp add: main_handle_client_def main_try_body_def sock_sendall_def
        try_except_finally_simps)
  have timeout_server:
    "sends (trace (handle_client fixed_routes (RecvRaises TimeoutError) SendOk)) = []"
    by (rule sends_handle_client_no_data)
  have "length (tokens ''GET'') < 2"
    by (simp add: str_split_def char_defs)
  then have "dispatch fixed_routes ''GET''
      = ([], Inr (build_response 400 ''<h1>400 Bad Request</h1>'' None))"
    by (simp add: dispatch_tokens)
  then have short: "sends (trace (handle_client fixed_routes (Received ''GET'') SendOk))
       = [build_response 400 ''<h1>400 Bad Request</h1>'' None]"
    by (rule sends_handle_client_response [rotated]) simp
  have "\<not> length (tokens ''GET / HTTP/1.1'') < 2"
    unfolding tokens_GET_root by simp
  then have "dispatch fixed_routes ''GET / HTTP/1.1''
      = ([Lookup (tokens ''GET / HTTP/1.1'' ! 1), Invoke (tokens ''GET / HTTP/1.1'' ! 1)],
         Inr (build_response 200 response_body None))"
    by (rule dispatch_fixed_routes)
  then have good: "sends (trace (handle_client fixed_routes (Received ''GET / HTTP/1.1'') SendOk))
       = [build_response 200 response_body None]"
    by (rule sends_handle_client_response [rotated]) simp
  show ?thesis
    using timeout_main timeout_server short good
    by (simp add: sends_main_handle_client_received main_response_differs)
qed

end
